theory Spec2Isabelle
  imports Main
begin

section \<open>Values, failures and exceptions\<close>

text \<open>
  A failure of a lower layer (a rejected promise of the user store, of the Horizon
  server or of the RPC server): an \<open>Error\<close> with its message.
\<close>

datatype failure = Failure string

text \<open>
  What an operation of the backend can throw: one of the HTTP exceptions of the
  framework that the sources construct, or a lower-level failure that passes through
  unchanged.
\<close>

datatype exn =
    ConflictException string
  | UnauthorizedException string
  | ForbiddenException string
  | BadRequestException "string list"
  | LowerLevelError failure

text \<open>The status code the framework answers with for a thrown exception.\<close>

fun getStatus :: "exn \<Rightarrow> nat" where
  "getStatus (BadRequestException _) = 400"
| "getStatus (UnauthorizedException _) = 401"
| "getStatus (ForbiddenException _) = 403"
| "getStatus (ConflictException _) = 409"
| "getStatus (LowerLevelError _) = 500"

text \<open>\<open>Array.prototype.join\<close> on strings.\<close>

fun join :: "string \<Rightarrow> string list \<Rightarrow> string" where
  "join sep [] = []"
| "join sep [x] = x"
| "join sep (x # y # ys) = x @ sep @ join sep (y # ys)"

text \<open>
  A JavaScript value as far as the sources inspect one: \<open>undefined\<close>, \<open>null\<close>,
  booleans, numbers (only looked at for being zero), strings, an instance of the
  SDK's \<open>Asset\<close> class, and any other object.
\<close>

datatype jsval =
    JUndefined
  | JNull
  | JBool bool
  | JNum int
  | JStr string
  | JAsset
  | JObject

text \<open>An object as a map from property names to values.\<close>

type_synonym jsobj = "string \<rightharpoonup> jsval"

section \<open>Role-based access control: \<open>roles.guard.ts\<close>\<close>

text \<open>
  Modelled from the spec: \<open>roles.enum.ts\<close> is not among the sources; the role
  vocabulary is "exactly USER and ADMIN (closed enumeration)". \<open>Role_value\<close> is the
  string an enum member prints as inside a template string.
\<close>

datatype Role = USER | ADMIN

fun Role_value :: "Role \<Rightarrow> string" where
  "Role_value USER = ''USER''"
| "Role_value ADMIN = ''ADMIN''"

text \<open>The object the authentication layer attaches to the request as \<open>request.user\<close>.\<close>

record RequestUser =
  role :: Role

text \<open>
  The part of the execution context the guard reads: the \<open>roles\<close> metadata on the
  route handler and on its controller class (\<open>None\<close>: no \<open>@Roles()\<close> decorator
  there), and \<open>request.user\<close> (\<open>None\<close>: nothing attached).
\<close>

record ExecutionContext =
  handlerRoles :: "Role list option"
  classRoles :: "Role list option"
  requestUser :: "RequestUser option"

text \<open>
  \<open>Reflector.getAllAndOverride(key, targets)\<close>: the metadata of the first target
  that has any ("method takes priority over class").
\<close>

fun getAllAndOverride :: "'a option list \<Rightarrow> 'a option" where
  "getAllAndOverride [] = None"
| "getAllAndOverride (None # targets) = getAllAndOverride targets"
| "getAllAndOverride (Some result # targets) = Some result"

definition accessDenied :: "Role list \<Rightarrow> RequestUser \<Rightarrow> string" where
  "accessDenied requiredRoles user =
     ''Access denied. Required role(s): '' @ join '', '' (map Role_value requiredRoles)
       @ ''. Your role: '' @ Role_value (role user) @ ''.''"

definition canActivate :: "ExecutionContext \<Rightarrow> exn + bool" where
  "canActivate context =
     (case getAllAndOverride [handlerRoles context, classRoles context] of
        None \<Rightarrow> Inr True
      | Some requiredRoles \<Rightarrow>
          if length requiredRoles = 0 then Inr True
          else (case requestUser context of
                  None \<Rightarrow> Inl (ForbiddenException ''No authenticated user found on request.'')
                | Some user \<Rightarrow>
                    let hasRole = list_ex (\<lambda>role'. role user = role') requiredRoles
                    in if \<not> hasRole
                       then Inl (ForbiddenException (accessDenied requiredRoles user))
                       else Inr True))"

text \<open>A thrown \<open>ForbiddenException\<close>, whatever its message.\<close>

fun isForbidden :: "exn + 'a \<Rightarrow> bool" where
  "isForbidden (Inl (ForbiddenException _)) = True"
| "isForbidden _ = False"

section \<open>Credential service: \<open>AuthService\<close>\<close>

text \<open>
  \<open>LoginDto\<close> and \<open>RegisterDto\<close> as the service receives them.
  \<open>RegisterDto\<close> has the two fields of \<open>LoginDto\<close> and the optional
  \<open>name\<close>, so it is written as its extension and \<open>email\<close>, \<open>password\<close>
  read both.
\<close>

record LoginDto =
  email :: string
  password :: string

record RegisterDto = LoginDto +
  name :: "string option"

text \<open>
  A user row as the user service hands it out. \<open>Identity\<close> is the row without
  its \<open>password\<close> column, so that \<open>const { password, ...result } = user\<close> is
  \<open>Identity.truncate user\<close>. The fields are \<open>id\<close>, \<open>email\<close>, \<open>name\<close>,
  \<open>role\<close> and \<open>password\<close> (the stored hash; \<open>None\<close> when the row has none).
\<close>

record Identity =
  user_id :: string
  user_email :: string
  user_name :: "string option"
  user_role :: Role

record User = Identity +
  user_password :: "string option"

text \<open>The claims \<open>{ sub: userId, email }\<close> handed to \<open>jwtService.sign\<close>.\<close>

record JwtPayload =
  sub :: string
  claim_email :: string

text \<open>
  The user service (\<open>modules/user/user.service\<close>, not among the sources) over a
  store of type \<open>'s\<close>: \<open>findByEmail\<close> reads the store and resolves to a row or to
  nothing, \<open>create\<close> resolves to the created row and leaves a new store; either
  may reject with a failure.
\<close>

record 's UserService =
  findByEmail :: "'s \<Rightarrow> string \<Rightarrow> failure + User option"
  create :: "'s \<Rightarrow> RegisterDto \<Rightarrow> (failure + User) \<times> 's"

text \<open>
  The service with what it is constructed from and what it imports: the user service,
  \<open>jwtService.sign\<close>, and \<open>bcrypt.hash(data, rounds)\<close> and
  \<open>bcrypt.compare(data, encrypted)\<close>. The salt and the clock are the
  environment's: a \<open>bcrypt_hash\<close> stands for the digests of one run.
\<close>

record 's AuthService =
  userService :: "'s UserService"
  jwtService_sign :: "JwtPayload \<Rightarrow> string"
  bcrypt_hash :: "string \<Rightarrow> nat \<Rightarrow> string"
  bcrypt_compare :: "string \<Rightarrow> string \<Rightarrow> bool"

record LoginResult =
  accessToken :: string

record RegisterResult = LoginResult +
  user :: User

definition generateToken :: "'s AuthService \<Rightarrow> string \<Rightarrow> string \<Rightarrow> string" where
  "generateToken this userId email' =
     jwtService_sign this \<lparr>sub = userId, claim_email = email'\<rparr>"

definition register :: "'s AuthService \<Rightarrow> 's \<Rightarrow> RegisterDto \<Rightarrow> (exn + RegisterResult) \<times> 's" where
  "register this s dto =
     (case findByEmail (userService this) s (email dto) of
        Inl e \<Rightarrow> (Inl (LowerLevelError e), s)
      | Inr (Some existingUser) \<Rightarrow> (Inl (ConflictException ''User already exists''), s)
      | Inr None \<Rightarrow>
          let hashedPassword = bcrypt_hash this (password dto) 10
          in (case create (userService this) s (dto\<lparr>password := hashedPassword\<rparr>) of
                (Inl e, s') \<Rightarrow> (Inl (LowerLevelError e), s')
              | (Inr u, s') \<Rightarrow>
                  (Inr \<lparr>accessToken = generateToken this (user_id u) (user_email u),
                        user = u\<rparr>, s')))"

text \<open>
  \<open>user && user.password && (await bcrypt.compare(pass, user.password))\<close>: a
  missing row, a missing or empty hash and a failed comparison all end in \<open>null\<close>.
\<close>

definition validateUser :: "'s AuthService \<Rightarrow> 's \<Rightarrow> string \<Rightarrow> string \<Rightarrow> exn + Identity option" where
  "validateUser this s email' pass =
     (case findByEmail (userService this) s email' of
        Inl e \<Rightarrow> Inl (LowerLevelError e)
      | Inr None \<Rightarrow> Inr None
      | Inr (Some u) \<Rightarrow>
          (case user_password u of
             None \<Rightarrow> Inr None
           | Some h \<Rightarrow>
               if h \<noteq> [] \<and> bcrypt_compare this pass h
               then Inr (Some (Identity.truncate u))
               else Inr None))"

definition login :: "'s AuthService \<Rightarrow> 's \<Rightarrow> LoginDto \<Rightarrow> exn + LoginResult" where
  "login this s dto =
     (case validateUser this s (email dto) (password dto) of
        Inl e \<Rightarrow> Inl e
      | Inr None \<Rightarrow> Inl (UnauthorizedException ''Invalid credentials'')
      | Inr (Some u) \<Rightarrow>
          Inr \<lparr>accessToken = generateToken this (user_id u) (user_email u)\<rparr>)"

subsection \<open>A user store in memory, and stand-ins for the libraries\<close>

text \<open>
  Modelled from the spec: the user service is not among the sources. The store
  adapter offers "lookup-by-email" (an "exact-match lookup, no implicit
  normalization") and "create-user", which creates "the store record with
  email/hash/name/role defaulted to USER" and returns it, as \<open>register\<close> reads
  \<open>user.id\<close> and \<open>user.email\<close> off the result. Rows are kept in a list; the
  new row's id is made from its email.
\<close>

definition memory_findByEmail :: "User list \<Rightarrow> string \<Rightarrow> failure + User option" where
  "memory_findByEmail rows e = Inr (find (\<lambda>u. user_email u = e) rows)"

definition memory_create :: "User list \<Rightarrow> RegisterDto \<Rightarrow> (failure + User) \<times> User list" where
  "memory_create rows dto =
     (let u = \<lparr>user_id = ''id-'' @ email dto, user_email = email dto,
                user_name = name dto, user_role = USER,
                user_password = Some (password dto)\<rparr>
      in (Inr u, rows @ [u]))"

definition memoryUserService :: "(User list) UserService" where
  "memoryUserService = \<lparr>findByEmail = memory_findByEmail, create = memory_create\<rparr>"


text \<open>
  Stand-ins for bcrypt and the token signer, for running the service on concrete
  inputs: the digest shows its cost factor as that many \<open>$\<close> before the reversed
  password, and the token spells out its claims.
\<close>

definition test_hash :: "string \<Rightarrow> nat \<Rightarrow> string" where
  "test_hash data rounds = replicate rounds (CHR ''$'') @ rev data"

definition test_compare :: "string \<Rightarrow> string \<Rightarrow> bool" where
  "test_compare data encrypted = (dropWhile (\<lambda>c. c = CHR ''$'') encrypted = rev data)"

definition test_sign :: "JwtPayload \<Rightarrow> string" where
  "test_sign payload = ''jwt:'' @ sub payload @ '':'' @ claim_email payload"

definition testAuthService :: "(User list) AuthService" where
  "testAuthService =
     \<lparr>userService = memoryUserService, jwtService_sign = test_sign,
      bcrypt_hash = test_hash, bcrypt_compare = test_compare\<rparr>"




text \<open>Rows and requests to run the service on.\<close>

definition alice :: User where
  "alice = \<lparr>user_id = ''id-a@x.com'', user_email = ''a@x.com'', user_name = None,
            user_role = USER, user_password = Some (test_hash ''password123'' 10)\<rparr>"

definition bob :: User where
  "bob = \<lparr>user_id = ''id-b@x.com'', user_email = ''b@x.com'', user_name = None,
          user_role = USER, user_password = None\<rparr>"

definition registerAlice :: RegisterDto where
  "registerAlice = \<lparr>email = ''a@x.com'', password = ''password123'', name = None\<rparr>"

section \<open>Ledger transactions: \<open>StellarService\<close>\<close>





text \<open>
  A transaction record of a Horizon response: \<open>created_at\<close>, \<open>hash\<close>, and what
  \<open>await tx.operations()\<close> comes to, the \<open>records\<close> of the response or a failure.
\<close>

record TransactionRecord =
  created_at :: string
  hash :: string
  operations :: "failure + jsobj list"








subsection \<open>A ledger to run the service on\<close>

definition payment :: TransactionRecord where
  "payment = \<lparr>created_at = ''2024-01-03T00:00:00Z'', hash = ''aa01'',
     operations = Inr [[''type'' \<mapsto> JStr ''payment'', ''asset_type'' \<mapsto> JStr ''native'',
                        ''amount'' \<mapsto> JStr ''10.0'']]\<rparr>"







section \<open>Webhook signature check\<close>

text \<open>
  Modelled from the spec: the webhook controller and its signature verifier are not
  among the sources (only \<open>webhooks.e2e-spec.ts\<close> is). The verifier takes "the
  exact raw request body" and "a signature value taken from a designated header",
  computes the hex-encoded HMAC-SHA256 of the body under the webhook secret and
  compares: "Missing signature header: fail with Unauthorized: missing signature.
  Signature present but does not match: fail with Unauthorized: invalid signature.
  Match: allow"; "success returns a fixed success acknowledgment", which the test
  reads as status 200 with \<open>{ status: 'success' }\<close>. The HMAC is a parameter.
\<close>

record WebhookRequest =
  signatureHeader :: "string option"
  rawBody :: string

record HttpResponse =
  statusCode :: nat
  responseBody :: jsobj

definition verifySignature ::
    "(string \<Rightarrow> string \<Rightarrow> string) \<Rightarrow> string \<Rightarrow> WebhookRequest \<Rightarrow> exn + unit" where
  "verifySignature hmacSha256Hex webhookSecret req =
     (case signatureHeader req of
        None \<Rightarrow> Inl (UnauthorizedException ''missing signature'')
      | Some signature \<Rightarrow>
          if signature = hmacSha256Hex webhookSecret (rawBody req) then Inr ()
          else Inl (UnauthorizedException ''invalid signature''))"

definition handleStellarWebhook ::
    "(string \<Rightarrow> string \<Rightarrow> string) \<Rightarrow> string \<Rightarrow> WebhookRequest \<Rightarrow> exn + jsobj" where
  "handleStellarWebhook hmacSha256Hex webhookSecret req =
     (case verifySignature hmacSha256Hex webhookSecret req of
        Inl e \<Rightarrow> Inl e
      | Inr _ \<Rightarrow> Inr [''status'' \<mapsto> JStr ''success''])"

text \<open>The response on the wire: the exception's status and message, or 200 and the body.\<close>

definition postStellarWebhook ::
    "(string \<Rightarrow> string \<Rightarrow> string) \<Rightarrow> string \<Rightarrow> WebhookRequest \<Rightarrow> HttpResponse" where
  "postStellarWebhook hmacSha256Hex webhookSecret req =
     (case handleStellarWebhook hmacSha256Hex webhookSecret req of
        Inl e \<Rightarrow> \<lparr>statusCode = getStatus e,
                   responseBody = [''statusCode'' \<mapsto> JNum (int (getStatus e))]\<rparr>
      | Inr acknowledgment \<Rightarrow> \<lparr>statusCode = 200, responseBody = acknowledgment\<rparr>)"

text \<open>A stand-in for the HMAC, for running the endpoint: key and body, reversed.\<close>

definition test_hmac :: "string \<Rightarrow> string \<Rightarrow> string" where
  "test_hmac secret' data = rev (secret' @ ''/'' @ data)"

section \<open>The role guard decides as the role matrix says\<close>

lemma canActivate_open:
  "getAllAndOverride [handlerRoles c, classRoles c] = None
     \<or> getAllAndOverride [handlerRoles c, classRoles c] = Some []
   \<Longrightarrow> canActivate c = Inr True"
  by (auto simp: canActivate_def)

lemma canActivate_no_user:
  "getAllAndOverride [handlerRoles c, classRoles c] = Some rs \<Longrightarrow> rs \<noteq> []
   \<Longrightarrow> requestUser c = None \<Longrightarrow> isForbidden (canActivate c)"
  by (simp add: canActivate_def)

lemma canActivate_user:
  "getAllAndOverride [handlerRoles c, classRoles c] = Some rs \<Longrightarrow> rs \<noteq> []
   \<Longrightarrow> requestUser c = Some u
   \<Longrightarrow> canActivate c = (if role u \<in> set rs then Inr True
                         else Inl (ForbiddenException (accessDenied rs u)))"
  by (simp add: canActivate_def list_ex_iff)

text \<open>
  C2. For every route and request: the guard allows when the required-roles
  declaration of the route (the handler's, else the class's) is absent or empty,
  whether or not a user is attached; otherwise it throws Forbidden when no user is
  attached; otherwise it allows exactly when the user's role is among the required
  roles and throws Forbidden when it is not. Required roles [ADMIN] allow ADMIN and
  deny USER; required roles [USER, ADMIN] allow both.
\<close>

theorem roles_guard_decision:
  fixes c :: ExecutionContext
  defines "required \<equiv> getAllAndOverride [handlerRoles c, classRoles c]"
  shows "(required = None \<or> required = Some [] \<longrightarrow> canActivate c = Inr True)
       \<and> (\<forall>rs. required = Some rs \<and> rs \<noteq> [] \<and> requestUser c = None
              \<longrightarrow> isForbidden (canActivate c))
       \<and> (\<forall>rs u. required = Some rs \<and> rs \<noteq> [] \<and> requestUser c = Some u
              \<longrightarrow> (canActivate c = Inr True \<longleftrightarrow> role u \<in> set rs)
                \<and> (role u \<notin> set rs \<longrightarrow> isForbidden (canActivate c)))
       \<and> (\<forall>h k. canActivate \<lparr>handlerRoles = Some [ADMIN], classRoles = k,
                 requestUser = Some \<lparr>role = ADMIN\<rparr>\<rparr> = Inr True
              \<and> isForbidden (canActivate \<lparr>handlerRoles = Some [ADMIN], classRoles = k,
                   requestUser = Some \<lparr>role = USER\<rparr>\<rparr>)
              \<and> canActivate \<lparr>handlerRoles = Some [USER, ADMIN], classRoles = k,
                   requestUser = Some \<lparr>role = h\<rparr>\<rparr> = Inr True)"
proof -
  have open_route: "required = None \<or> required = Some [] \<longrightarrow> canActivate c = Inr True"
    unfolding required_def using canActivate_open by blast
  have anonymous: "\<forall>rs. required = Some rs \<and> rs \<noteq> [] \<and> requestUser c = None
      \<longrightarrow> isForbidden (canActivate c)"
    unfolding required_def using canActivate_no_user by blast
  have member: "\<forall>rs u. required = Some rs \<and> rs \<noteq> [] \<and> requestUser c = Some u
      \<longrightarrow> (canActivate c = Inr True \<longleftrightarrow> role u \<in> set rs)
        \<and> (role u \<notin> set rs \<longrightarrow> isForbidden (canActivate c))"
    unfolding required_def by (auto simp: canActivate_user)
  have matrix: "\<forall>h k. canActivate \<lparr>handlerRoles = Some [ADMIN], classRoles = k,
                 requestUser = Some \<lparr>role = ADMIN\<rparr>\<rparr> = Inr True
              \<and> isForbidden (canActivate \<lparr>handlerRoles = Some [ADMIN], classRoles = k,
                   requestUser = Some \<lparr>role = USER\<rparr>\<rparr>)
              \<and> canActivate \<lparr>handlerRoles = Some [USER, ADMIN], classRoles = k,
                   requestUser = Some \<lparr>role = h\<rparr>\<rparr> = Inr True"
  proof (intro allI)
    fix h :: Role and k :: "Role list option"
    show "canActivate \<lparr>handlerRoles = Some [ADMIN], classRoles = k,
                 requestUser = Some \<lparr>role = ADMIN\<rparr>\<rparr> = Inr True
              \<and> isForbidden (canActivate \<lparr>handlerRoles = Some [ADMIN], classRoles = k,
                   requestUser = Some \<lparr>role = USER\<rparr>\<rparr>)
              \<and> canActivate \<lparr>handlerRoles = Some [USER, ADMIN], classRoles = k,
                   requestUser = Some \<lparr>role = h\<rparr>\<rparr> = Inr True"
      by (cases h) (simp_all add: canActivate_def)
  qed
  from open_route anonymous member matrix show ?thesis by blast
qed

theorem roles_guard_decision_witness:
  "canActivate \<lparr>handlerRoles = None, classRoles = None, requestUser = None\<rparr> = Inr True
   \<and> canActivate \<lparr>handlerRoles = Some [], classRoles = Some [ADMIN], requestUser = None\<rparr>
       = Inr True
   \<and> isForbidden (canActivate \<lparr>handlerRoles = None, classRoles = Some [ADMIN],
       requestUser = None\<rparr>)
   \<and> canActivate \<lparr>handlerRoles = Some [ADMIN], classRoles = None,
       requestUser = Some \<lparr>role = ADMIN\<rparr>\<rparr> = Inr True
   \<and> isForbidden (canActivate \<lparr>handlerRoles = Some [ADMIN], classRoles = None,
       requestUser = Some \<lparr>role = USER\<rparr>\<rparr>)"
proof -
  note open1 = roles_guard_decision
    [of "\<lparr>handlerRoles = None, classRoles = None, requestUser = None\<rparr>"]
  note open2 = roles_guard_decision
    [of "\<lparr>handlerRoles = Some [], classRoles = Some [ADMIN], requestUser = None\<rparr>"]
  note anon = roles_guard_decision
    [of "\<lparr>handlerRoles = None, classRoles = Some [ADMIN], requestUser = None\<rparr>"]
  note admin = roles_guard_decision
    [of "\<lparr>handlerRoles = Some [ADMIN], classRoles = None,
          requestUser = Some \<lparr>role = ADMIN\<rparr>\<rparr>"]
  note user = roles_guard_decision
    [of "\<lparr>handlerRoles = Some [ADMIN], classRoles = None,
          requestUser = Some \<lparr>role = USER\<rparr>\<rparr>"]
  have 1: "canActivate \<lparr>handlerRoles = None, classRoles = None, requestUser = None\<rparr>
      = Inr True"
    using open1 by simp
  have 2: "canActivate \<lparr>handlerRoles = Some [], classRoles = Some [ADMIN],
      requestUser = None\<rparr> = Inr True"
    using open2 by simp
  have 3: "isForbidden (canActivate \<lparr>handlerRoles = None, classRoles = Some [ADMIN],
      requestUser = None\<rparr>)"
    using anon by simp
  have 4: "canActivate \<lparr>handlerRoles = Some [ADMIN], classRoles = None,
      requestUser = Some \<lparr>role = ADMIN\<rparr>\<rparr> = Inr True"
    using admin by simp
  have 5: "isForbidden (canActivate \<lparr>handlerRoles = Some [ADMIN], classRoles = None,
      requestUser = Some \<lparr>role = USER\<rparr>\<rparr>)"
    using user by simp
  from 1 2 3 4 5 show ?thesis by blast
qed

section \<open>Login\<close>

lemma replicate_numeral: "replicate (numeral k) x = x # replicate (pred_numeral k) x"
  by (simp add: numeral_eq_Suc)

lemma login_no_record:
  "findByEmail (userService this) s (email dto) = Inr None
   \<Longrightarrow> login this s dto = Inl (UnauthorizedException ''Invalid credentials'')"
  by (simp add: login_def validateUser_def)

lemma login_no_hash:
  "findByEmail (userService this) s (email dto) = Inr (Some u)
   \<Longrightarrow> user_password u = None \<or> user_password u = Some []
   \<Longrightarrow> login this s dto = Inl (UnauthorizedException ''Invalid credentials'')"
  by (auto simp: login_def validateUser_def)

lemma login_wrong_password:
  "findByEmail (userService this) s (email dto) = Inr (Some u)
   \<Longrightarrow> user_password u = Some h \<Longrightarrow> \<not> bcrypt_compare this (password dto) h
   \<Longrightarrow> login this s dto = Inl (UnauthorizedException ''Invalid credentials'')"
  by (simp add: login_def validateUser_def)

lemma login_success:
  "findByEmail (userService this) s (email dto) = Inr (Some u)
   \<Longrightarrow> user_password u = Some h \<Longrightarrow> h \<noteq> [] \<Longrightarrow> bcrypt_compare this (password dto) h
   \<Longrightarrow> login this s dto =
        Inr \<lparr>accessToken = jwtService_sign this \<lparr>sub = user_id u, claim_email = user_email u\<rparr>\<rparr>"
  by (simp add: login_def validateUser_def generateToken_def Identity.truncate_def)

text \<open>
  C3. \<open>login\<close> throws one and the same \<open>UnauthorizedException('Invalid credentials')\<close>
  when no row exists for the email, when the row has no stored hash (none, or an
  empty one), and when the hash comparison fails; when the row is found, has a hash
  and the comparison succeeds, it returns a token signed for the row's id and email.
\<close>

theorem login_invalid_credentials_uniform:
  fixes this :: "'s AuthService" and s :: 's and dto :: LoginDto
  defines "found \<equiv> findByEmail (userService this) s (email dto)"
  defines "invalid \<equiv> Inl (UnauthorizedException ''Invalid credentials'')"
  shows "(found = Inr None \<longrightarrow> login this s dto = invalid)
       \<and> (\<forall>u. found = Inr (Some u) \<and> (user_password u = None \<or> user_password u = Some [])
              \<longrightarrow> login this s dto = invalid)
       \<and> (\<forall>u h. found = Inr (Some u) \<and> user_password u = Some h
                \<and> \<not> bcrypt_compare this (password dto) h
              \<longrightarrow> login this s dto = invalid)
       \<and> (\<forall>u h. found = Inr (Some u) \<and> user_password u = Some h \<and> h \<noteq> []
                \<and> bcrypt_compare this (password dto) h
              \<longrightarrow> login this s dto =
                    Inr \<lparr>accessToken =
                      jwtService_sign this \<lparr>sub = user_id u, claim_email = user_email u\<rparr>\<rparr>)"
  unfolding found_def invalid_def
  using login_no_record [of this s dto] login_no_hash [of this s dto]
    login_wrong_password [of this s dto] login_success [of this s dto]
  by blast

theorem login_invalid_credentials_uniform_witness:
  "login testAuthService [alice, bob] \<lparr>email = ''c@x.com'', password = ''password123''\<rparr>
     = Inl (UnauthorizedException ''Invalid credentials'')
   \<and> login testAuthService [alice, bob] \<lparr>email = ''b@x.com'', password = ''password123''\<rparr>
     = Inl (UnauthorizedException ''Invalid credentials'')
   \<and> login testAuthService [alice, bob] \<lparr>email = ''a@x.com'', password = ''password124''\<rparr>
     = Inl (UnauthorizedException ''Invalid credentials'')
   \<and> login testAuthService [alice, bob] \<lparr>email = ''a@x.com'', password = ''password123''\<rparr>
     = Inr \<lparr>accessToken = ''jwt:id-a@x.com:a@x.com''\<rparr>"
proof -
  have 1: "login testAuthService [alice, bob] \<lparr>email = ''c@x.com'', password = ''password123''\<rparr>
     = Inl (UnauthorizedException ''Invalid credentials'')"
    using login_invalid_credentials_uniform [where this = testAuthService
        and s = "[alice, bob]" and dto = "\<lparr>email = ''c@x.com'', password = ''password123''\<rparr>"]
    by (simp add: testAuthService_def memoryUserService_def memory_findByEmail_def
        test_hash_def test_compare_def test_sign_def alice_def bob_def replicate_numeral)
  have 2: "login testAuthService [alice, bob] \<lparr>email = ''b@x.com'', password = ''password123''\<rparr>
     = Inl (UnauthorizedException ''Invalid credentials'')"
    using login_invalid_credentials_uniform [where this = testAuthService
        and s = "[alice, bob]" and dto = "\<lparr>email = ''b@x.com'', password = ''password123''\<rparr>"]
    by (simp add: testAuthService_def memoryUserService_def memory_findByEmail_def
        test_hash_def test_compare_def test_sign_def alice_def bob_def replicate_numeral)
  have 3: "login testAuthService [alice, bob] \<lparr>email = ''a@x.com'', password = ''password124''\<rparr>
     = Inl (UnauthorizedException ''Invalid credentials'')"
    using login_invalid_credentials_uniform [where this = testAuthService
        and s = "[alice, bob]" and dto = "\<lparr>email = ''a@x.com'', password = ''password124''\<rparr>"]
    by (simp add: testAuthService_def memoryUserService_def memory_findByEmail_def
        test_hash_def test_compare_def test_sign_def alice_def bob_def replicate_numeral)
  have 4: "login testAuthService [alice, bob] \<lparr>email = ''a@x.com'', password = ''password123''\<rparr>
     = Inr \<lparr>accessToken = ''jwt:id-a@x.com:a@x.com''\<rparr>"
    using login_invalid_credentials_uniform [where this = testAuthService
        and s = "[alice, bob]" and dto = "\<lparr>email = ''a@x.com'', password = ''password123''\<rparr>"]
    by (simp add: testAuthService_def memoryUserService_def memory_findByEmail_def
        test_hash_def test_compare_def test_sign_def alice_def bob_def replicate_numeral)
  from 1 2 3 4 show ?thesis by blast
qed

section \<open>Tokens\<close>

text \<open>
  The only token code among the sources is \<open>generateToken\<close>: the claims it has
  signed are \<open>sub\<close>, the user id, and \<open>email\<close>. Verification is the JWT
  library's and is called nowhere in the sources.
\<close>

lemma generateToken_claims:
  "generateToken this userId e = jwtService_sign this \<lparr>sub = userId, claim_email = e\<rparr>"
  by (simp add: generateToken_def)

section \<open>Registration\<close>

lemma register_conflict_iff:
  "(\<exists>m. fst (register this s dto) = Inl (ConflictException m))
     \<longleftrightarrow> (\<exists>u. findByEmail (userService this) s (email dto) = Inr (Some u))"
  by (auto simp: register_def Let_def split: sum.splits option.splits prod.splits)

lemma register_conflict_unchanged:
  "findByEmail (userService this) s (email dto) = Inr (Some u)
   \<Longrightarrow> register this s dto = (Inl (ConflictException ''User already exists''), s)"
  by (simp add: register_def)

lemma memory_findByEmail_Some:
  "(\<exists>u. memory_findByEmail rows e = Inr (Some u)) \<longleftrightarrow> e \<in> user_email ` set rows"
  unfolding memory_findByEmail_def by (induction rows) auto

lemma memory_register_conflict_iff:
  "userService that = memoryUserService
   \<Longrightarrow> (\<exists>m. fst (register that rows dto) = Inl (ConflictException m))
         \<longleftrightarrow> email dto \<in> user_email ` set rows"
  using register_conflict_iff [of that rows dto] memory_findByEmail_Some [of rows "email dto"]
  by (simp add: memoryUserService_def)

text \<open>
  C5. \<open>register\<close> throws a \<open>ConflictException\<close> if and only if
  \<open>findByEmail\<close>, asked for the email of the request as it stands, resolves to a
  row; it then throws \<open>ConflictException('User already exists')\<close>, returns no
  token and leaves the store as it was. Over the store in memory that is: if and
  only if some row has exactly that email.
\<close>

theorem register_duplicate_user:
  fixes this :: "'s AuthService" and s :: 's and dto :: RegisterDto
  shows "((\<exists>m. fst (register this s dto) = Inl (ConflictException m))
            \<longleftrightarrow> (\<exists>u. findByEmail (userService this) s (email dto) = Inr (Some u)))
       \<and> ((\<exists>u. findByEmail (userService this) s (email dto) = Inr (Some u))
            \<longrightarrow> register this s dto = (Inl (ConflictException ''User already exists''), s))
       \<and> (\<forall>that rows. userService that = memoryUserService \<longrightarrow>
             ((\<exists>m. fst (register that rows dto) = Inl (ConflictException m))
                \<longleftrightarrow> email dto \<in> user_email ` set rows))"
  using register_conflict_iff [of this s dto] register_conflict_unchanged [of this s dto]
    memory_register_conflict_iff [of _ _ dto]
  by blast

theorem register_duplicate_user_witness:
  "register testAuthService [alice] registerAlice
     = (Inl (ConflictException ''User already exists''), [alice])
   \<and> (\<nexists>m. fst (register testAuthService [alice] (registerAlice\<lparr>email := ''A@x.com''\<rparr>))
         = Inl (ConflictException m))"
proof -
  have 1: "register testAuthService [alice] registerAlice
     = (Inl (ConflictException ''User already exists''), [alice])"
    using register_duplicate_user [where this = testAuthService and s = "[alice]"
        and dto = registerAlice]
    by (simp add: testAuthService_def memoryUserService_def memory_findByEmail_def
        alice_def registerAlice_def)
  have 2: "\<nexists>m. fst (register testAuthService [alice] (registerAlice\<lparr>email := ''A@x.com''\<rparr>))
         = Inl (ConflictException m)"
    using register_duplicate_user [where this = testAuthService and s = "[alice]"
        and dto = "registerAlice\<lparr>email := ''A@x.com''\<rparr>"]
    by (simp add: testAuthService_def memoryUserService_def memory_findByEmail_def
        alice_def registerAlice_def)
  from 1 2 show ?thesis by blast
qed

lemma register_returns_created_row:
  "register this s dto = (Inr r, s')
   \<Longrightarrow> create (userService this) s (dto\<lparr>password := bcrypt_hash this (password dto) 10\<rparr>)
         = (Inr (user r), s')"
  by (auto simp: register_def Let_def split: sum.splits option.splits prod.splits)

text \<open>
  C1 (the code departs from it). \<open>register\<close> returns the row that \<open>create\<close>
  resolved to as it is (\<open>register_returns_created_row\<close>); only \<open>validateUser\<close>
  drops the \<open>password\<close> field. Registering \<open>a@x.com\<close> with \<open>password123\<close> on
  the empty store in memory answers with the row and its stored hash, while
  \<open>validateUser\<close> on that row answers without it.
\<close>

theorem register_returns_password_hash:
  "register testAuthService [] registerAlice
     = (Inr \<lparr>accessToken = ''jwt:id-a@x.com:a@x.com'', user = alice\<rparr>, [alice])
   \<and> user_password alice = Some (test_hash ''password123'' 10)
   \<and> validateUser testAuthService [alice] ''a@x.com'' ''password123''
       = Inr (Some \<lparr>user_id = ''id-a@x.com'', user_email = ''a@x.com'', user_name = None,
                     user_role = USER\<rparr>)"
  by (simp add: register_def validateUser_def generateToken_def Identity.truncate_def
      testAuthService_def memoryUserService_def memory_findByEmail_def
      memory_create_def test_hash_def test_compare_def test_sign_def alice_def
      registerAlice_def replicate_numeral Let_def)

lemma register_hashes_with_ten:
  "findByEmail (userService this) s (email dto) = Inr None
   \<Longrightarrow> register this s dto =
        (case create (userService this) s
                (dto\<lparr>password := bcrypt_hash this (password dto) 10\<rparr>) of
           (Inl f, s') \<Rightarrow> (Inl (LowerLevelError f), s')
         | (Inr u, s') \<Rightarrow>
             (Inr \<lparr>accessToken = generateToken this (user_id u) (user_email u), user = u\<rparr>,
              s'))"
  by (simp add: register_def Let_def)

lemma memory_register_stores_hash:
  assumes "userService that = memoryUserService" and "email dto \<notin> user_email ` set rows"
  shows "\<exists>r. register that rows dto = (Inr r, rows @ [user r])
           \<and> user_password (user r) = Some (bcrypt_hash that (password dto) 10)"
proof -
  have "\<nexists>u. memory_findByEmail rows (email dto) = Inr (Some u)"
    using assms(2) memory_findByEmail_Some [of rows "email dto"] by simp
  then have none: "findByEmail (userService that) rows (email dto) = Inr None"
    by (cases "find (\<lambda>u. user_email u = email dto) rows")
       (simp_all add: assms(1) memoryUserService_def memory_findByEmail_def)
  show ?thesis
    unfolding register_hashes_with_ten [OF none]
    by (simp add: assms(1) memoryUserService_def memory_create_def Let_def)
qed

text \<open>
  C8 as stated fails: the service is constructed from the user service and the token
  signer only and reads no configuration, so a deployment provisioned with cost
  factor 12 still stores a hash of cost 10, which is not the hash of cost 12.
\<close>

theorem register_cost_factor_not_configured:
  "register testAuthService [] registerAlice
     = (Inr \<lparr>accessToken = ''jwt:id-a@x.com:a@x.com'', user = alice\<rparr>, [alice])
   \<and> user_password alice = Some (test_hash ''password123'' 10)
   \<and> test_hash ''password123'' 10 \<noteq> test_hash ''password123'' 12"
  by (simp add: register_def generateToken_def testAuthService_def memoryUserService_def memory_findByEmail_def
      memory_create_def test_hash_def test_sign_def alice_def registerAlice_def
      replicate_numeral Let_def)

text \<open>
  C8, amended. Whenever \<open>register\<close> gets past the duplicate check, the password
  it hands to \<open>create\<close> is \<open>bcrypt.hash(dto.password, 10)\<close>: the cost factor is
  the constant 10, whatever the hasher and whatever the deployment. Over the store
  in memory the new row's stored hash is that digest.
\<close>

theorem register_cost_factor_ten:
  fixes this :: "'s AuthService" and s :: 's and dto :: RegisterDto
  shows "(findByEmail (userService this) s (email dto) = Inr None \<longrightarrow>
            register this s dto =
              (case create (userService this) s
                      (dto\<lparr>password := bcrypt_hash this (password dto) 10\<rparr>) of
                 (Inl f, s') \<Rightarrow> (Inl (LowerLevelError f), s')
               | (Inr u, s') \<Rightarrow>
                   (Inr \<lparr>accessToken = generateToken this (user_id u) (user_email u),
                         user = u\<rparr>, s')))
       \<and> (\<forall>that rows. userService that = memoryUserService
               \<and> email dto \<notin> user_email ` set rows \<longrightarrow>
             (\<exists>r. register that rows dto = (Inr r, rows @ [user r])
                \<and> user_password (user r) = Some (bcrypt_hash that (password dto) 10)))"
  using register_hashes_with_ten [of this s dto] memory_register_stores_hash [of _ dto]
  by blast

theorem register_cost_factor_ten_witness:
  "register testAuthService [alice]
       \<lparr>email = ''b@x.com'', password = ''correct horse'', name = Some ''Bob''\<rparr>
     = (Inr \<lparr>accessToken = ''jwt:id-b@x.com:b@x.com'',
             user = \<lparr>user_id = ''id-b@x.com'', user_email = ''b@x.com'',
                      user_name = Some ''Bob'', user_role = USER,
                      user_password = Some (test_hash ''correct horse'' 10)\<rparr>\<rparr>,
        [alice, \<lparr>user_id = ''id-b@x.com'', user_email = ''b@x.com'',
                  user_name = Some ''Bob'', user_role = USER,
                  user_password = Some (test_hash ''correct horse'' 10)\<rparr>])"
  using register_cost_factor_ten [where this = testAuthService and s = "[alice]"
      and dto = "\<lparr>email = ''b@x.com'', password = ''correct horse'', name = Some ''Bob''\<rparr>"]
  by (simp add: generateToken_def testAuthService_def memoryUserService_def memory_findByEmail_def
      memory_create_def test_hash_def test_sign_def alice_def replicate_numeral Let_def)

section \<open>Recent transactions\<close>













section \<open>Failures of the lower layers\<close>











section \<open>The webhook endpoint\<close>

lemma webhook_missing:
  "signatureHeader req = None
   \<Longrightarrow> handleStellarWebhook h k req = Inl (UnauthorizedException ''missing signature'')
     \<and> statusCode (postStellarWebhook h k req) = 401"
  by (simp add: postStellarWebhook_def handleStellarWebhook_def verifySignature_def)

lemma webhook_invalid:
  "signatureHeader req = Some sg \<Longrightarrow> sg \<noteq> h k (rawBody req)
   \<Longrightarrow> handleStellarWebhook h k req = Inl (UnauthorizedException ''invalid signature'')
     \<and> statusCode (postStellarWebhook h k req) = 401"
  by (simp add: postStellarWebhook_def handleStellarWebhook_def verifySignature_def)

lemma webhook_valid:
  "signatureHeader req = Some (h k (rawBody req))
   \<Longrightarrow> postStellarWebhook h k req
        = \<lparr>statusCode = 200, responseBody = [''status'' \<mapsto> JStr ''success'']\<rparr>"
  by (simp add: postStellarWebhook_def handleStellarWebhook_def verifySignature_def)

text \<open>
  C4. For every request to the webhook endpoint: without the signature header it
  fails with \<open>Unauthorized: missing signature\<close> and status 401; with a signature
  that is not the hex HMAC of the raw body under the webhook secret it fails with
  \<open>Unauthorized: invalid signature\<close> and status 401, never 200; with the
  matching signature it answers 200 with \<open>{ status: 'success' }\<close>.
\<close>

theorem webhook_signature_contract:
  fixes hmacSha256Hex :: "string \<Rightarrow> string \<Rightarrow> string" and webhookSecret :: string
    and req :: WebhookRequest
  defines "expected \<equiv> hmacSha256Hex webhookSecret (rawBody req)"
  defines "response \<equiv> postStellarWebhook hmacSha256Hex webhookSecret req"
  shows "(signatureHeader req = None \<longrightarrow>
            handleStellarWebhook hmacSha256Hex webhookSecret req
              = Inl (UnauthorizedException ''missing signature'')
            \<and> statusCode response = 401)
       \<and> (\<forall>signature. signatureHeader req = Some signature \<and> signature \<noteq> expected \<longrightarrow>
            handleStellarWebhook hmacSha256Hex webhookSecret req
              = Inl (UnauthorizedException ''invalid signature'')
            \<and> statusCode response = 401 \<and> statusCode response \<noteq> 200)
       \<and> (signatureHeader req = Some expected \<longrightarrow>
            response = \<lparr>statusCode = 200, responseBody = [''status'' \<mapsto> JStr ''success'']\<rparr>)"
  unfolding expected_def response_def
  using webhook_missing [of req hmacSha256Hex webhookSecret]
    webhook_invalid [of req _ hmacSha256Hex webhookSecret]
    webhook_valid [of req hmacSha256Hex webhookSecret]
  by simp

theorem webhook_signature_contract_witness:
  "statusCode (postStellarWebhook test_hmac ''test_webhook_secret_key_123456''
       \<lparr>signatureHeader = None, rawBody = ''{type:payment}''\<rparr>) = 401
   \<and> statusCode (postStellarWebhook test_hmac ''test_webhook_secret_key_123456''
       \<lparr>signatureHeader = Some ''wrong'', rawBody = ''{type:payment}''\<rparr>) = 401
   \<and> postStellarWebhook test_hmac ''test_webhook_secret_key_123456''
       \<lparr>signatureHeader = Some (test_hmac ''test_webhook_secret_key_123456'' ''{type:payment}''),
        rawBody = ''{type:payment}''\<rparr>
     = \<lparr>statusCode = 200, responseBody = [''status'' \<mapsto> JStr ''success'']\<rparr>"
proof -
  have 1: "statusCode (postStellarWebhook test_hmac ''test_webhook_secret_key_123456''
       \<lparr>signatureHeader = None, rawBody = ''{type:payment}''\<rparr>) = 401"
    using webhook_signature_contract [where hmacSha256Hex = test_hmac
        and webhookSecret = "''test_webhook_secret_key_123456''"
        and req = "\<lparr>signatureHeader = None, rawBody = ''{type:payment}''\<rparr>"]
    by simp
  have 2: "statusCode (postStellarWebhook test_hmac ''test_webhook_secret_key_123456''
       \<lparr>signatureHeader = Some ''wrong'', rawBody = ''{type:payment}''\<rparr>) = 401"
    using webhook_signature_contract [where hmacSha256Hex = test_hmac
        and webhookSecret = "''test_webhook_secret_key_123456''"
        and req = "\<lparr>signatureHeader = Some ''wrong'', rawBody = ''{type:payment}''\<rparr>"]
    by (simp add: test_hmac_def)
  have 3: "postStellarWebhook test_hmac ''test_webhook_secret_key_123456''
       \<lparr>signatureHeader = Some (test_hmac ''test_webhook_secret_key_123456'' ''{type:payment}''),
        rawBody = ''{type:payment}''\<rparr>
     = \<lparr>statusCode = 200, responseBody = [''status'' \<mapsto> JStr ''success'']\<rparr>"
    using webhook_signature_contract [where hmacSha256Hex = test_hmac
        and webhookSecret = "''test_webhook_secret_key_123456''"
        and req = "\<lparr>signatureHeader =
            Some (test_hmac ''test_webhook_secret_key_123456'' ''{type:payment}''),
          rawBody = ''{type:payment}''\<rparr>"]
    by simp
  from 1 2 3 show ?thesis by blast
qed

end
